theory Spec2Isabelle
  imports Complex_Main "HOL-Library.Char_ord" "HOL-Library.List_Lexorder"
begin

section \<open>Python exceptions and run-time values\<close>

text \<open>
  The module \<^verbatim>\<open>molecular.py\<close> is dynamically typed, and several of its methods
  fail at run time on a value of the wrong type or on an index out of range. Every such
  failure is a branch of the model: a method that may raise returns \<open>error + 'a\<close>,
  with \<open>Inl\<close> the exception.
\<close>

datatype error =
    TypeError
  | IndexError
  | AttributeError
  | QuitWithError string  \<comment> \<open>a call of \<^verbatim>\<open>kasuga_io.quit_with_error(message)\<close>\<close>

section \<open>ConnectivityGraph\<close>

text \<open>
  \<^verbatim>\<open>ConnectivityGraph.__init__\<close> stores \<^verbatim>\<open>size\<close> and \<^verbatim>\<open>nodes = np.zeros((size, size))\<close>,
  a matrix of floats. The field \<^verbatim>\<open>size\<close> is named \<open>sizeG\<close> here, since \<open>size\<close> is
  a constant of HOL.
\<close>

record ConnectivityGraph =
  sizeG :: nat
  nodes :: "real list list"

definition ConnectivityGraph_init :: "nat \<Rightarrow> ConnectivityGraph" where
  "ConnectivityGraph_init n = \<lparr>sizeG = n, nodes = replicate n (replicate n 0)\<rparr>"

text \<open>\<^verbatim>\<open>m[r, c]\<close> on a two-dimensional array: IndexError out of range.\<close>

definition getitem2 :: "real list list \<Rightarrow> nat \<Rightarrow> nat \<Rightarrow> error + real" where
  "getitem2 m r c =
     (if r < length m then
        (if c < length (m ! r) then Inr (m ! r ! c) else Inl IndexError)
      else Inl IndexError)"

text \<open>\<^verbatim>\<open>xs[i] = v\<close> on a one-dimensional array.\<close>

definition setitem :: "real list \<Rightarrow> nat \<Rightarrow> real \<Rightarrow> error + real list" where
  "setitem xs i v = (if i < length xs then Inr (xs[i := v]) else Inl IndexError)"

text \<open>
  The test \<^verbatim>\<open>self.nodes[a, b] == 1 or self.nodes[b, a] == 1\<close>, used by both methods of
  the class. Python's \<^verbatim>\<open>or\<close> does not evaluate its right operand when the left one is true.
\<close>

definition edge_test :: "ConnectivityGraph \<Rightarrow> nat \<Rightarrow> nat \<Rightarrow> error + bool" where
  "edge_test g a b =
     (case getitem2 (nodes g) a b of
        Inl e \<Rightarrow> Inl e
      | Inr x \<Rightarrow>
          if x = 1 then Inr True
          else (case getitem2 (nodes g) b a of
                  Inl e \<Rightarrow> Inl e
                | Inr y \<Rightarrow> Inr (y = 1)))"

text \<open>
  The argument \<^verbatim>\<open>excluded\<close> of \<^verbatim>\<open>flood_fill_search\<close> is whatever the caller passes.
  The default is the empty tuple; \<^verbatim>\<open>change_dihedral\<close> passes a tuple of indices;
  \<^verbatim>\<open>change_bond\<close> and \<^verbatim>\<open>change_angle\<close> pass \<^verbatim>\<open>(bond[1])\<close>, which in Python is the
  integer \<^verbatim>\<open>bond[1]\<close> itself (a one-element tuple is written \<^verbatim>\<open>(x,)\<close>).
  The only use of the argument is \<^verbatim>\<open>i not in excluded\<close>, which raises TypeError when
  \<^verbatim>\<open>excluded\<close> is an integer ("argument of type 'int' is not iterable").
\<close>

datatype excluded_arg =
    IntArg nat
  | TupleArg "nat list"

fun not_in :: "nat \<Rightarrow> excluded_arg \<Rightarrow> error + bool" where
  "not_in i (IntArg k) = Inl TypeError"
| "not_in i (TupleArg xs) = Inr (i \<notin> set xs)"

text \<open>A \<^verbatim>\<open>for\<close> loop whose body may raise: the first exception ends the loop.\<close>

fun for_each :: "('a \<Rightarrow> 's \<Rightarrow> error + 's) \<Rightarrow> 'a list \<Rightarrow> 's \<Rightarrow> error + 's" where
  "for_each body [] s = Inr s"
| "for_each body (x # xs) s =
     (case body x s of Inl e \<Rightarrow> Inl e | Inr s' \<Rightarrow> for_each body xs s')"

subsection \<open>flood_fill_search\<close>

text \<open>
  Body of the first inner loop (lines 383 to 386):
  \<^verbatim>\<open>
  if self.nodes[startpoint, i] == 1 or self.nodes[i, startpoint] == 1:
      if i not in excluded:
          inside[i] = 1
  \<close>
\<close>

definition include_body ::
  "ConnectivityGraph \<Rightarrow> nat \<Rightarrow> excluded_arg \<Rightarrow> nat \<Rightarrow> real list \<Rightarrow> error + real list" where
  "include_body g startpoint excluded i inside =
     (case edge_test g startpoint i of
        Inl e \<Rightarrow> Inl e
      | Inr linked \<Rightarrow>
          if linked then
            (case not_in i excluded of
               Inl e \<Rightarrow> Inl e
             | Inr free \<Rightarrow> if free then setitem inside i 1 else Inr inside)
          else Inr inside)"

text \<open>
  Body of the second inner loop (lines 390 to 396), on the triple
  \<open>(count_inside, count_checked, startpoint)\<close>:
  \<^verbatim>\<open>
  if checked[i] == 1: count_checked += 1
  if inside[i] == 1: count_inside += 1
  if checked[i] != 0 and inside[i] == 1: startpoint = i
  \<close>
  Both arrays have \<open>size\<close> entries and \<open>i\<close> ranges over \<open>range(size)\<close>, so these reads
  are in range.
\<close>

definition count_body :: "real list \<Rightarrow> real list \<Rightarrow> nat \<Rightarrow> nat \<times> nat \<times> nat \<Rightarrow> nat \<times> nat \<times> nat" where
  "count_body inside checked i st =
     (case st of (count_inside, count_checked, startpoint) \<Rightarrow>
        (if inside ! i = 1 then count_inside + 1 else count_inside,
         if checked ! i = 1 then count_checked + 1 else count_checked,
         if checked ! i \<noteq> 0 \<and> inside ! i = 1 then i else startpoint))"

text \<open>
  One pass of the body of \<^verbatim>\<open>while True\<close>: it raises, returns \<open>inside\<close>, or goes on with a
  new \<open>(startpoint, inside, checked)\<close>.
\<close>

datatype flow = Return "real list" | Continue nat "real list" "real list"

definition flood_pass ::
  "ConnectivityGraph \<Rightarrow> excluded_arg \<Rightarrow> nat \<Rightarrow> real list \<Rightarrow> real list \<Rightarrow> error + flow" where
  "flood_pass g excluded startpoint inside checked =
     (case for_each (include_body g startpoint excluded) [0..<sizeG g] inside of
        Inl e \<Rightarrow> Inl e
      | Inr inside1 \<Rightarrow>
          (case setitem checked startpoint 1 of
             Inl e \<Rightarrow> Inl e
           | Inr checked1 \<Rightarrow>
               (case fold (count_body inside1 checked1) [0..<sizeG g] (0, 0, startpoint) of
                  (count_inside, count_checked, startpoint1) \<Rightarrow>
                    if count_inside = count_checked then Inr (Return inside1)
                    else Inr (Continue startpoint1 inside1 checked1))))"

text \<open>
  The loop \<^verbatim>\<open>while True\<close> has no bound, so it is a partial function: \<open>None\<close> is a run
  that never leaves the loop.
\<close>

partial_function (option) flood_loop ::
  "ConnectivityGraph \<Rightarrow> excluded_arg \<Rightarrow> nat \<Rightarrow> real list \<Rightarrow> real list \<Rightarrow> (error + real list) option" where
  "flood_loop g excluded startpoint inside checked =
     (case flood_pass g excluded startpoint inside checked of
        Inl e \<Rightarrow> Some (Inl e)
      | Inr (Return result) \<Rightarrow> Some (Inr result)
      | Inr (Continue startpoint1 inside1 checked1) \<Rightarrow>
          flood_loop g excluded startpoint1 inside1 checked1)"

declare flood_loop.simps [code]

definition flood_fill_search ::
  "ConnectivityGraph \<Rightarrow> nat \<Rightarrow> excluded_arg \<Rightarrow> (error + real list) option" where
  "flood_fill_search g startpoint excluded =
     flood_loop g excluded startpoint (replicate (sizeG g) 0) (replicate (sizeG g) 0)"

subsection \<open>subsets_connected\<close>

text \<open>
  Lines 400 to 405. Both arguments are NumPy arrays (\<^verbatim>\<open>.size\<close> is their number of
  entries); the loops run over \<^verbatim>\<open>range(subset_one.size)\<close> and
  \<^verbatim>\<open>range(subset_two.size)\<close>, and \<^verbatim>\<open>return True\<close> leaves both.
\<close>

fun inner_scan :: "ConnectivityGraph \<Rightarrow> nat \<Rightarrow> nat list \<Rightarrow> error + bool" where
  "inner_scan g i1 [] = Inr False"
| "inner_scan g i1 (i2 # rest) =
     (case edge_test g i1 i2 of
        Inl e \<Rightarrow> Inl e
      | Inr hit \<Rightarrow> if hit then Inr True else inner_scan g i1 rest)"

fun outer_scan :: "ConnectivityGraph \<Rightarrow> nat list \<Rightarrow> nat list \<Rightarrow> error + bool" where
  "outer_scan g [] cols = Inr False"
| "outer_scan g (i1 # rest) cols =
     (case inner_scan g i1 cols of
        Inl e \<Rightarrow> Inl e
      | Inr found \<Rightarrow> if found then Inr True else outer_scan g rest cols)"

definition subsets_connected :: "ConnectivityGraph \<Rightarrow> real list \<Rightarrow> real list \<Rightarrow> error + bool" where
  "subsets_connected g subset_one subset_two =
     outer_scan g [0..<length subset_one] [0..<length subset_two]"

section \<open>Vector\<close>

text \<open>
  \<^verbatim>\<open>Vector.__init__\<close> sets \<^verbatim>\<open>coord = np.zeros(3)\<close>: a float array of shape (3,), here a
  triple of reals. The model computes in exact real arithmetic where NumPy computes in
  IEEE doubles; none of the results below depends on rounding.
\<close>

type_synonym vec3 = "real \<times> real \<times> real"

type_synonym mat3 = "vec3 \<times> vec3 \<times> vec3"

text \<open>\<^verbatim>\<open>v[k]\<close>: NumPy raises IndexError for \<open>k \<ge> 3\<close> on an array of three entries.\<close>

fun getitem :: "vec3 \<Rightarrow> nat \<Rightarrow> error + real" where
  "getitem (x, y, z) k =
     (if k = 0 then Inr x else if k = 1 then Inr y else if k = 2 then Inr z
      else Inl IndexError)"

text \<open>The reads \<^verbatim>\<open>v[0]\<close>, \<^verbatim>\<open>v[1]\<close>, \<^verbatim>\<open>v[2]\<close>, which are in range.\<close>

fun c0 :: "vec3 \<Rightarrow> real" where "c0 (x, y, z) = x"
fun c1 :: "vec3 \<Rightarrow> real" where "c1 (x, y, z) = y"
fun c2 :: "vec3 \<Rightarrow> real" where "c2 (x, y, z) = z"

text \<open>Elementwise array arithmetic, with NumPy's broadcasting of a scalar.\<close>

fun vadd :: "vec3 \<Rightarrow> vec3 \<Rightarrow> vec3" where
  "vadd (a, b, c) (x, y, z) = (a + x, b + y, c + z)"

fun vsub :: "vec3 \<Rightarrow> vec3 \<Rightarrow> vec3" where
  "vsub (a, b, c) (x, y, z) = (a - x, b - y, c - z)"

fun smul :: "real \<Rightarrow> vec3 \<Rightarrow> vec3" where
  "smul k (x, y, z) = (k * x, k * y, k * z)"

fun sdiv :: "vec3 \<Rightarrow> real \<Rightarrow> vec3" where
  "sdiv (x, y, z) k = (x / k, y / k, z / k)"

fun sadd :: "vec3 \<Rightarrow> real \<Rightarrow> vec3" where
  "sadd (x, y, z) k = (x + k, y + k, z + k)"

fun linalg_norm :: "vec3 \<Rightarrow> real" where
  "linalg_norm (x, y, z) = sqrt (x\<^sup>2 + y\<^sup>2 + z\<^sup>2)"

fun np_cross :: "vec3 \<Rightarrow> vec3 \<Rightarrow> vec3" where
  "np_cross (a, b, c) (x, y, z) = (b * z - c * y, c * x - a * z, a * y - b * x)"

text \<open>\<^verbatim>\<open>np.matmul(v, m)\<close>: a row vector times a matrix.\<close>

fun matmul_vm :: "vec3 \<Rightarrow> mat3 \<Rightarrow> vec3" where
  "matmul_vm (x, y, z) (r0, r1, r2) = vadd (smul x r0) (vadd (smul y r1) (smul z r2))"

definition deg2rad :: "real \<Rightarrow> real" where
  "deg2rad angle = angle * pi / 180"

record Vector =
  coord :: vec3

subsection \<open>mirror\<close>

text \<open>
  Lines 285 to 312. The third term of each plane equation reads \<^verbatim>\<open>self.coord[3]\<close>,
  \<^verbatim>\<open>test1[3]\<close> and \<^verbatim>\<open>test2[3]\<close>. A zero normal makes NumPy divide by zero, which gives
  \<open>nan\<close> entries and a warning, not an exception; HOL's \<open>x / 0 = 0\<close> stands in for it.
\<close>

definition plane_distance ::
  "real \<Rightarrow> real \<Rightarrow> real \<Rightarrow> real \<Rightarrow> vec3 \<Rightarrow> error + real" where
  "plane_distance a b c d v =
     (case getitem v 0 of Inl e \<Rightarrow> Inl e | Inr v0 \<Rightarrow>
      case getitem v 1 of Inl e \<Rightarrow> Inl e | Inr v1 \<Rightarrow>
      case getitem v 3 of Inl e \<Rightarrow> Inl e | Inr v3 \<Rightarrow>
        Inr (\<bar>a * v0 + b * v1 + c * v3 + d\<bar> / sqrt (a\<^sup>2 + b\<^sup>2 + c\<^sup>2)))"

definition mirror :: "'a Vector_scheme \<Rightarrow> vec3 \<Rightarrow> vec3 \<Rightarrow> error + 'a Vector_scheme" where
  "mirror self normal point =
     (let n = sdiv normal (linalg_norm normal);
          a = c0 normal;
          b = c1 normal;
          c = c2 normal;
          d = -1 * (a * c0 point + b * c1 point + c * c2 point)
      in case plane_distance a b c d (coord self) of
           Inl e \<Rightarrow> Inl e
         | Inr distance \<Rightarrow>
             (let test1 = vadd (coord self) (smul distance (smul 2 n));
                  test2 = vsub (coord self) (smul distance (smul 2 n))
              in case plane_distance a b c d test1 of
                   Inl e \<Rightarrow> Inl e
                 | Inr distance_test1 \<Rightarrow>
                     (case plane_distance a b c d test2 of
                        Inl e \<Rightarrow> Inl e
                      | Inr distance_test2 \<Rightarrow>
                          if distance_test1 < distance_test2
                          then Inr (self\<lparr>coord := test1\<rparr>)
                          else Inr (self\<lparr>coord := test2\<rparr>))))"

subsection \<open>rotate\<close>

text \<open>
  The matrix built at lines 337 to 347 of \<^verbatim>\<open>Vector.rotate\<close>. The entry
  \<^verbatim>\<open>matrix[2, 1]\<close> is never assigned and keeps the \<open>0\<close> of \<^verbatim>\<open>np.zeros((3, 3))\<close>.
\<close>

definition rotate_matrix :: "real \<Rightarrow> vec3 \<Rightarrow> mat3" where
  "rotate_matrix angle axis_vector0 =
     (let axis_vector = sdiv axis_vector0 (linalg_norm axis_vector0);
          angle_rad = deg2rad angle;
          m00 = cos angle_rad + (c0 axis_vector)\<^sup>2 * (1 - cos angle_rad);
          m01 = c0 axis_vector * c1 axis_vector * (1 - cos angle_rad) - c2 axis_vector * sin angle_rad;
          m02 = c0 axis_vector * c0 axis_vector * (1 - cos angle_rad) + c1 axis_vector * sin angle_rad;
          m11 = cos angle_rad + (c1 axis_vector)\<^sup>2 * (1 - cos angle_rad);
          m12 = c1 axis_vector * c2 axis_vector * (1 - cos angle_rad) - c0 axis_vector * sin angle_rad;
          m22 = cos angle_rad + (c2 axis_vector)\<^sup>2 * (1 - cos angle_rad);
          m10 = m01;
          m20 = m02
      in ((m00, m01, m02), (m10, m11, m12), (m20, 0, m22)))"

section \<open>Atom\<close>

text \<open>The atomic weights, lines 55 to 168.\<close>

definition element_weight :: "(string \<times> real) list" where
  "element_weight = [
    (''H'', 1.0075), (''He'', 4.002), (''Li'', 6.9675), (''Be'', 9.012), (''B'', 10.8135),
     (''C'', 12.0106), (''N'', 14.0065), (''O'', 15.999), (''F'', 18.998), (''Ne'', 20.1797),
     (''Na'', 22.989), (''Mg'', 24.3050), (''Al'', 26.981), (''Si'', 28.085), (''P'', 30.973),
     (''S'', 32.0675), (''Cl'', 35.4515), (''Ar'', 39.948), (''K'', 39.0983), (''Ca'', 40.078),
     (''Sc'', 44.955), (''Ti'', 47.867), (''V'', 50.9415), (''Cr'', 51.9961), (''Mn'', 54.938),
     (''Fe'', 55.845), (''Co'', 58.933), (''Ni'', 58.6934), (''Cu'', 63.546), (''Zn'', 65.38),
     (''Ga'', 69.723), (''Ge'', 72.63), (''As'', 74.921), (''Se'', 78.96), (''Br'', 79.904),
     (''Kr'', 83.798), (''Rb'', 85.4678), (''Sr'', 87.62), (''Y'', 88.905), (''Zr'', 91.224),
     (''Nb'', 92.906), (''Mo'', 95.96), (''Tc'', 98), (''Ru'', 101.07), (''Rh'', 102.905),
     (''Pd'', 106.42), (''Ag'', 107.8682), (''Cd'', 112.411), (''In'', 114.818),
     (''Sn'', 118.710), (''Sb'', 121.760), (''Te'', 127.60), (''I'', 126.904),
     (''Xe'', 131.293), (''Cs'', 132.905), (''Ba'', 137.327), (''La'', 138.905),
     (''Ce'', 140.116), (''Pr'', 140.907), (''Nd'', 144.242), (''Pm'', 145), (''Sm'', 150.36),
     (''Eu'', 151.964), (''Gd'', 157.25), (''Tb'', 158.925), (''Dy'', 162.500),
     (''Ho'', 164.930), (''Er'', 167.259), (''Tm'', 168.934), (''Yb'', 173.054),
     (''Lu'', 174.9668), (''Hf'', 178.49), (''Ta'', 180.947), (''W'', 183.84),
     (''Re'', 186.207), (''Os'', 190.23), (''Ir'', 192.217), (''Pt'', 195.084),
     (''Au'', 196.966), (''Hg'', 200.59), (''Tl'', 204.3835), (''Pb'', 207.2),
     (''Bi'', 208.980), (''Po'', 209), (''At'', 210), (''Rn'', 222), (''Fr'', 223),
     (''Ra'', 226), (''Ac'', 227), (''Th'', 232.038), (''Pa'', 231.035), (''U'', 238.028),
     (''Np'', 237), (''Pu'', 244), (''Am'', 243), (''Cm'', 247), (''Bk'', 247), (''Cf'', 251),
     (''Es'', 252), (''Fm'', 257), (''Md'', 258), (''No'', 259), (''Lr'', 262), (''Rf'', 267),
     (''Db'', 268), (''Sg'', 271), (''Bh'', 272), (''Hs'', 270), (''Mt'', 276), (''Ds'', 281),
     (''Rg'', 280), (''Cn'', 285)]"

record Atom = Vector +
  weight :: real
  symbol :: string

text \<open>
  \<^verbatim>\<open>assign_weight\<close> returns the atom as the call leaves it, and the call of
  \<^verbatim>\<open>kasuga_io.quit_with_error\<close> if it made one. That function is not part of this module;
  whatever it does, \<^verbatim>\<open>assign_weight\<close> has no statement after the call.
\<close>

definition assign_weight :: "Atom \<Rightarrow> Atom \<times> error option" where
  "assign_weight self =
     (case map_of element_weight (symbol self) of
        Some w \<Rightarrow> (self\<lparr>weight := w\<rparr>, None)
      | None \<Rightarrow>
          (self, Some (QuitWithError (''Unrecognized '' @ symbol self @ '' atom encountered!''))))"

text \<open>
  The argument \<^verbatim>\<open>axis_point\<close> of \<^verbatim>\<open>rotate\<close>: a coordinate array, or (from
  \<^verbatim>\<open>change_angle\<close> and \<^verbatim>\<open>change_dihedral\<close>, which pass \<^verbatim>\<open>self.atoms[k]\<close>) an Atom.
  \<^verbatim>\<open>self.coord - axis_point\<close> raises TypeError on an Atom, which defines no arithmetic.
\<close>

datatype point_arg = ArrayArg vec3 | AtomArg Atom

fun array_minus :: "vec3 \<Rightarrow> point_arg \<Rightarrow> error + vec3" where
  "array_minus v (ArrayArg p) = Inr (vsub v p)"
| "array_minus v (AtomArg a) = Inl TypeError"

definition rotateV ::
  "'a Vector_scheme \<Rightarrow> real \<Rightarrow> vec3 \<Rightarrow> point_arg \<Rightarrow> error + 'a Vector_scheme" where
  "rotateV self angle axis_vector axis_point =
     (case array_minus (coord self) axis_point of
        Inl e \<Rightarrow> Inl e
      | Inr axis_diff \<Rightarrow>
          (let matrix = rotate_matrix angle axis_vector;
               axis_diff_rotated = matmul_vm axis_diff matrix;
               axis_translation = vsub axis_diff axis_diff_rotated
           in Inr (self\<lparr>coord := vadd (coord self) axis_translation\<rparr>)))"

definition distance :: "'a Vector_scheme \<Rightarrow> 'b Vector_scheme \<Rightarrow> real" where
  "distance self v2 = linalg_norm (vsub (coord self) (coord v2))"

definition distance_rough :: "'a Vector_scheme \<Rightarrow> 'b Vector_scheme \<Rightarrow> real" where
  "distance_rough self v2 =
     (let delta = vsub (coord self) (coord v2)
      in max (max \<bar>c0 delta\<bar> \<bar>c1 delta\<bar>) \<bar>c2 delta\<bar>)"

text \<open>\<^verbatim>\<open>Atom.connected\<close>, lines 437 to 445; the default cutoff is 0.025.\<close>

definition connectedA :: "Atom \<Rightarrow> Atom \<Rightarrow> bool \<Rightarrow> real \<Rightarrow> bool" where
  "connectedA self b simplified cutoff =
     (let d = (if simplified then distance_rough self b else distance self b)
      in d \<le> cutoff)"

text \<open>
  \<^verbatim>\<open>Atom.__eq__(self, other)\<close>, lines 423 to 428, reads \<^verbatim>\<open>other.coord\<close> first: an
  \<^verbatim>\<open>other\<close> that is a string has no such attribute. For \<^verbatim>\<open>s == x\<close> with \<open>s\<close> a string
  and \<open>x\<close> an Atom, \<^verbatim>\<open>str.__eq__\<close> answers NotImplemented and Python then calls the
  reflected \<^verbatim>\<open>x.__eq__(s)\<close>.
\<close>

datatype pyobj = StrObj string | AtomObj Atom

fun Atom_eq :: "Atom \<Rightarrow> pyobj \<Rightarrow> error + bool" where
  "Atom_eq self (AtomObj other) =
     (let distance = linalg_norm (vsub (coord self) (coord other))
      in Inr (distance < 0.001 \<and> symbol self = symbol other))"
| "Atom_eq self (StrObj s) = Inl AttributeError"

fun str_eq :: "string \<Rightarrow> pyobj \<Rightarrow> error + bool" where
  "str_eq s (StrObj t) = Inr (s = t)"
| "str_eq s (AtomObj a) = Atom_eq a (StrObj s)"

section \<open>Molecule\<close>

text \<open>
  The fields that the methods below read or write; the other caches of
  \<^verbatim>\<open>Molecule.__init__\<close> (mass center, inertia vectors, point group) are left out.
  The atom list holds the atoms by value: the model takes the entries of the list to be
  distinct Atom objects. Sharing of the list itself is the subject of the last section.
\<close>

record Molecule =
  atoms :: "Atom list"
  molecular_formula :: "string option"
  connectivity_graph :: "ConnectivityGraph option"

text \<open>
  An index into a Python list must be an integer: an entry of a float array
  (\<^verbatim>\<open>numpy.float64\<close>) raises TypeError, an integer out of range raises IndexError.
\<close>

datatype index_arg = IntIdx nat | FloatIdx real

fun list_index :: "'a list \<Rightarrow> index_arg \<Rightarrow> error + nat" where
  "list_index xs (IntIdx k) = (if k < length xs then Inr k else Inl IndexError)"
| "list_index xs (FloatIdx r) = Inl TypeError"

subsection \<open>get_molecular_formula\<close>

text \<open>\<^verbatim>\<open>str(n)\<close> for a count.\<close>

fun str_nat :: "nat \<Rightarrow> string" where
  "str_nat n =
     (if n < 10 then [char_of (48 + n)]
      else str_nat (n div 10) @ [char_of (48 + n mod 10)])"

definition collect_symbols :: "Atom list \<Rightarrow> string list" where
  "collect_symbols as =
     fold (\<lambda>atom atom_list.
             if symbol atom \<notin> set atom_list then atom_list @ [symbol atom] else atom_list)
          as []"

text \<open>
  The inner loop of lines 543 to 545 compares the symbol \<^verbatim>\<open>atom_in_formula\<close> with the
  Atom \<^verbatim>\<open>atom_in_list\<close> itself.
\<close>

definition count_symbol :: "Atom list \<Rightarrow> string \<Rightarrow> error + nat" where
  "count_symbol as atom_in_formula =
     for_each (\<lambda>atom_in_list n.
                 case str_eq atom_in_formula (AtomObj atom_in_list) of
                   Inl e \<Rightarrow> Inl e
                 | Inr same \<Rightarrow> Inr (if same then n + 1 else n))
              as 0"

definition get_molecular_formula :: "Molecule \<Rightarrow> (error + string) \<times> Molecule" where
  "get_molecular_formula self =
     (let self1 = (if molecular_formula self = None
                   then self\<lparr>molecular_formula := Some []\<rparr> else self);
          atom_list = sort (collect_symbols (atoms self1))
      in case for_each (\<lambda>atom_in_formula counts.
                          case count_symbol (atoms self1) atom_in_formula of
                            Inl e \<Rightarrow> Inl e
                          | Inr n \<Rightarrow> Inr (counts @ [n]))
                       atom_list [] of
           Inl e \<Rightarrow> (Inl e, self1)
         | Inr counts \<Rightarrow>
             (let result = concat (map (\<lambda>(atom, n). atom @ str_nat n) (zip atom_list counts))
              in (Inr result, self1\<lparr>molecular_formula := Some result\<rparr>)))"

subsection \<open>get_connectivity_matrix\<close>

definition setitem2 :: "real list list \<Rightarrow> nat \<Rightarrow> nat \<Rightarrow> real \<Rightarrow> error + real list list" where
  "setitem2 m r c v =
     (if r < length m then
        (if c < length (m ! r) then Inr (m[r := (m ! r)[c := v]]) else Inl IndexError)
      else Inl IndexError)"

definition bond_body :: "Atom list \<Rightarrow> nat \<Rightarrow> nat \<Rightarrow> real list list \<Rightarrow> error + real list list" where
  "bond_body as i1 i2 m =
     (if connectedA (as ! i1) (as ! i2) False 0.025 then
        (case setitem2 m i1 i2 1 of
           Inl e \<Rightarrow> Inl e
         | Inr m1 \<Rightarrow> setitem2 m1 i2 i1 1)
      else Inr m)"

text \<open>
  Lines 552 to 560. A stored graph smaller than the atom list makes a write raise
  IndexError after earlier writes were made; the model keeps the exception only.
\<close>

definition get_connectivity_matrix :: "Molecule \<Rightarrow> error + real list list \<times> Molecule" where
  "get_connectivity_matrix self =
     (let g = (case connectivity_graph self of
                 None \<Rightarrow> ConnectivityGraph_init (length (atoms self))
               | Some g0 \<Rightarrow> g0)
      in case for_each (\<lambda>i1. for_each (bond_body (atoms self) i1) [i1..<length (atoms self)])
                       [0..<length (atoms self)] (nodes g) of
           Inl e \<Rightarrow> Inl e
         | Inr m \<Rightarrow> Inr (m, self\<lparr>connectivity_graph := Some (g\<lparr>nodes := m\<rparr>)\<rparr>))"

subsection \<open>change_bond\<close>

text \<open>
  The loop body \<^verbatim>\<open>self.atoms[i].coord += amount\<close> (a scalar added to every component;
  \<open>amount\<close> is negative for \<^verbatim>\<open>-=\<close>).
\<close>

definition shift_at :: "real \<Rightarrow> index_arg \<Rightarrow> Atom list \<Rightarrow> error + Atom list" where
  "shift_at amount i as =
     (case list_index as i of
        Inl e \<Rightarrow> Inl e
      | Inr k \<Rightarrow> Inr (as[k := (as ! k)\<lparr>coord := sadd (coord (as ! k)) amount\<rparr>]))"

text \<open>
  Lines 643 to 652, once both fragments are there. \<^verbatim>\<open>translation_vector\<close> is
  overwritten by its own norm, a scalar. The loops \<^verbatim>\<open>for i in first_fragment\<close> run over
  the entries of the float array that \<^verbatim>\<open>flood_fill_search\<close> returned.
\<close>

definition translate_fragments ::
  "Molecule \<Rightarrow> ConnectivityGraph \<Rightarrow> nat \<times> nat \<Rightarrow> real \<Rightarrow> real list \<Rightarrow> real list \<Rightarrow> error + Molecule" where
  "translate_fragments self g bond delta first_fragment second_fragment =
     (case list_index (atoms self) (IntIdx (fst bond)) of Inl e \<Rightarrow> Inl e | Inr b0 \<Rightarrow>
      case list_index (atoms self) (IntIdx (snd bond)) of Inl e \<Rightarrow> Inl e | Inr b1 \<Rightarrow>
        (let translation_vector0 = vsub (coord (atoms self ! b0)) (coord (atoms self ! b1));
             translation_vector = linalg_norm translation_vector0
         in case subsets_connected g first_fragment second_fragment of
              Inl e \<Rightarrow> Inl e
            | Inr linked \<Rightarrow>
                if linked then
                  (case shift_at (delta * translation_vector / 2) (IntIdx b0) (atoms self) of
                     Inl e \<Rightarrow> Inl e
                   | Inr as1 \<Rightarrow>
                       (case shift_at (- (delta * translation_vector / 2)) (IntIdx b1) as1 of
                          Inl e \<Rightarrow> Inl e
                        | Inr as2 \<Rightarrow> Inr (self\<lparr>atoms := as2\<rparr>)))
                else
                  (case for_each (shift_at (delta * translation_vector / 2))
                          (map FloatIdx first_fragment) (atoms self) of
                     Inl e \<Rightarrow> Inl e
                   | Inr as1 \<Rightarrow>
                       (case for_each (shift_at (- (delta * translation_vector / 2)))
                               (map FloatIdx second_fragment) as1 of
                          Inl e \<Rightarrow> Inl e
                        | Inr as2 \<Rightarrow> Inr (self\<lparr>atoms := as2\<rparr>)))))"

text \<open>
  Lines 640 to 652. \<open>None\<close> is a call that never returns; a molecule whose
  \<^verbatim>\<open>connectivity_graph\<close> is still \<^verbatim>\<open>None\<close> has no method \<^verbatim>\<open>flood_fill_search\<close>.
  Every exception of this method is raised before the first write to an atom.
\<close>

definition change_bond :: "Molecule \<Rightarrow> nat \<times> nat \<Rightarrow> real \<Rightarrow> (error + Molecule) option" where
  "change_bond self bond delta =
     (case connectivity_graph self of
        None \<Rightarrow> Some (Inl AttributeError)
      | Some g \<Rightarrow>
          (case flood_fill_search g (fst bond) (IntArg (snd bond)) of
             None \<Rightarrow> None
           | Some (Inl e) \<Rightarrow> Some (Inl e)
           | Some (Inr first_fragment) \<Rightarrow>
               (case flood_fill_search g (snd bond) (IntArg (fst bond)) of
                  None \<Rightarrow> None
                | Some (Inl e) \<Rightarrow> Some (Inl e)
                | Some (Inr second_fragment) \<Rightarrow>
                    Some (translate_fragments self g bond delta first_fragment second_fragment))))"

subsection \<open>change_angle\<close>

text \<open>The call \<^verbatim>\<open>self.atoms[i].rotate(angle, rotation_vector, axis_point)\<close>.\<close>

definition rotate_at :: "real \<Rightarrow> vec3 \<Rightarrow> point_arg \<Rightarrow> index_arg \<Rightarrow> Atom list \<Rightarrow> error + Atom list" where
  "rotate_at angle rotation_vector axis_point i as =
     (case list_index as i of
        Inl e \<Rightarrow> Inl e
      | Inr k \<Rightarrow>
          (case rotateV (as ! k) angle rotation_vector axis_point of
             Inl e \<Rightarrow> Inl e
           | Inr a \<Rightarrow> Inr (as[k := a])))"

text \<open>
  Lines 657 to 667. In the cross-linked branch both calls are on \<^verbatim>\<open>self.atoms[angle[0]]\<close>;
  the axis point is the Atom \<^verbatim>\<open>self.atoms[angle[1]]\<close>, not its coordinates.
\<close>

definition rotate_fragments ::
  "Molecule \<Rightarrow> ConnectivityGraph \<Rightarrow> nat \<times> nat \<times> nat \<Rightarrow> real \<Rightarrow> real list \<Rightarrow> real list
     \<Rightarrow> error + Molecule" where
  "rotate_fragments self g angle delta first_fragment second_fragment =
     (case angle of (a0, a1, a2) \<Rightarrow>
      case list_index (atoms self) (IntIdx a0) of Inl e \<Rightarrow> Inl e | Inr k0 \<Rightarrow>
      case list_index (atoms self) (IntIdx a1) of Inl e \<Rightarrow> Inl e | Inr k1 \<Rightarrow>
      case list_index (atoms self) (IntIdx a2) of Inl e \<Rightarrow> Inl e | Inr k2 \<Rightarrow>
        (let v1 = vsub (coord (atoms self ! k0)) (coord (atoms self ! k1));
             v2 = vsub (coord (atoms self ! k2)) (coord (atoms self ! k1));
             rotation_vector = np_cross v1 v2;
             pivot = AtomArg (atoms self ! k1)
         in case subsets_connected g first_fragment second_fragment of
              Inl e \<Rightarrow> Inl e
            | Inr linked \<Rightarrow>
                if linked then
                  (case rotate_at (delta / 2) rotation_vector pivot (IntIdx k0) (atoms self) of
                     Inl e \<Rightarrow> Inl e
                   | Inr as1 \<Rightarrow>
                       (case rotate_at (-1 * delta / 2) rotation_vector pivot (IntIdx k0) as1 of
                          Inl e \<Rightarrow> Inl e
                        | Inr as2 \<Rightarrow> Inr (self\<lparr>atoms := as2\<rparr>)))
                else
                  (case for_each (rotate_at (delta / 2) rotation_vector pivot)
                          (map FloatIdx first_fragment) (atoms self) of
                     Inl e \<Rightarrow> Inl e
                   | Inr as1 \<Rightarrow>
                       (case for_each (rotate_at (-1 * delta / 2) rotation_vector pivot)
                               (map FloatIdx second_fragment) as1 of
                          Inl e \<Rightarrow> Inl e
                        | Inr as2 \<Rightarrow> Inr (self\<lparr>atoms := as2\<rparr>)))))"

definition change_angle ::
  "Molecule \<Rightarrow> nat \<times> nat \<times> nat \<Rightarrow> real \<Rightarrow> (error + Molecule) option" where
  "change_angle self angle delta =
     (case connectivity_graph self of
        None \<Rightarrow> Some (Inl AttributeError)
      | Some g \<Rightarrow>
          (case flood_fill_search g (fst angle) (IntArg (fst (snd angle))) of
             None \<Rightarrow> None
           | Some (Inl e) \<Rightarrow> Some (Inl e)
           | Some (Inr first_fragment) \<Rightarrow>
               (case flood_fill_search g (snd (snd angle)) (IntArg (fst (snd angle))) of
                  None \<Rightarrow> None
                | Some (Inl e) \<Rightarrow> Some (Inl e)
                | Some (Inr second_fragment) \<Rightarrow>
                    Some (rotate_fragments self g angle delta first_fragment second_fragment))))"

subsection \<open>The molecule as an editor leaves it\<close>

text \<open>
  The editors write to the atoms in place, so a call that raises leaves the molecule as
  it was at the raise. \<open>change_bond\<close> and \<open>change_angle\<close> above give the exception alone;
  the definitions below follow the same lines of the source and give the molecule as the
  call leaves it, together with the exception if one ended the call.

  A loop whose body may raise, keeping the state at the raise. The two loop bodies of
  the editors, \<open>shift_at\<close> and \<open>rotate_at\<close>, raise before they write: the first at
  \<^verbatim>\<open>self.atoms[i]\<close>, the second there or at the first statement of \<^verbatim>\<open>rotate\<close>.
\<close>

fun for_each_keep :: "('a \<Rightarrow> 's \<Rightarrow> error + 's) \<Rightarrow> 'a list \<Rightarrow> 's \<Rightarrow> 's \<times> error option" where
  "for_each_keep body [] s = (s, None)"
| "for_each_keep body (x # xs) s =
     (case body x s of Inl e \<Rightarrow> (s, Some e) | Inr s' \<Rightarrow> for_each_keep body xs s')"

text \<open>Lines 643 to 652 of \<^verbatim>\<open>change_bond\<close>.\<close>

definition translate_fragments_effect ::
  "Molecule \<Rightarrow> ConnectivityGraph \<Rightarrow> nat \<times> nat \<Rightarrow> real \<Rightarrow> real list \<Rightarrow> real list
     \<Rightarrow> Molecule \<times> error option" where
  "translate_fragments_effect self g bond delta first_fragment second_fragment =
     (case list_index (atoms self) (IntIdx (fst bond)) of Inl e \<Rightarrow> (self, Some e) | Inr b0 \<Rightarrow>
      case list_index (atoms self) (IntIdx (snd bond)) of Inl e \<Rightarrow> (self, Some e) | Inr b1 \<Rightarrow>
        (let translation_vector0 = vsub (coord (atoms self ! b0)) (coord (atoms self ! b1));
             translation_vector = linalg_norm translation_vector0
         in case subsets_connected g first_fragment second_fragment of
              Inl e \<Rightarrow> (self, Some e)
            | Inr linked \<Rightarrow>
                if linked then
                  (case shift_at (delta * translation_vector / 2) (IntIdx b0) (atoms self) of
                     Inl e \<Rightarrow> (self, Some e)
                   | Inr as1 \<Rightarrow>
                       (case shift_at (- (delta * translation_vector / 2)) (IntIdx b1) as1 of
                          Inl e \<Rightarrow> (self\<lparr>atoms := as1\<rparr>, Some e)
                        | Inr as2 \<Rightarrow> (self\<lparr>atoms := as2\<rparr>, None)))
                else
                  (case for_each_keep (shift_at (delta * translation_vector / 2))
                          (map FloatIdx first_fragment) (atoms self) of
                     (as1, Some e) \<Rightarrow> (self\<lparr>atoms := as1\<rparr>, Some e)
                   | (as1, None) \<Rightarrow>
                       (case for_each_keep (shift_at (- (delta * translation_vector / 2)))
                               (map FloatIdx second_fragment) as1 of
                          (as2, r) \<Rightarrow> (self\<lparr>atoms := as2\<rparr>, r)))))"

text \<open>Lines 640 to 652; the two fragment searches read the graph and write nothing.\<close>

definition change_bond_effect ::
  "Molecule \<Rightarrow> nat \<times> nat \<Rightarrow> real \<Rightarrow> (Molecule \<times> error option) option" where
  "change_bond_effect self bond delta =
     (case connectivity_graph self of
        None \<Rightarrow> Some (self, Some AttributeError)
      | Some g \<Rightarrow>
          (case flood_fill_search g (fst bond) (IntArg (snd bond)) of
             None \<Rightarrow> None
           | Some (Inl e) \<Rightarrow> Some (self, Some e)
           | Some (Inr first_fragment) \<Rightarrow>
               (case flood_fill_search g (snd bond) (IntArg (fst bond)) of
                  None \<Rightarrow> None
                | Some (Inl e) \<Rightarrow> Some (self, Some e)
                | Some (Inr second_fragment) \<Rightarrow>
                    Some (translate_fragments_effect self g bond delta
                            first_fragment second_fragment))))"

text \<open>Lines 657 to 667 of \<^verbatim>\<open>change_angle\<close>.\<close>

definition rotate_fragments_effect ::
  "Molecule \<Rightarrow> ConnectivityGraph \<Rightarrow> nat \<times> nat \<times> nat \<Rightarrow> real \<Rightarrow> real list \<Rightarrow> real list
     \<Rightarrow> Molecule \<times> error option" where
  "rotate_fragments_effect self g angle delta first_fragment second_fragment =
     (case angle of (a0, a1, a2) \<Rightarrow>
      case list_index (atoms self) (IntIdx a0) of Inl e \<Rightarrow> (self, Some e) | Inr k0 \<Rightarrow>
      case list_index (atoms self) (IntIdx a1) of Inl e \<Rightarrow> (self, Some e) | Inr k1 \<Rightarrow>
      case list_index (atoms self) (IntIdx a2) of Inl e \<Rightarrow> (self, Some e) | Inr k2 \<Rightarrow>
        (let v1 = vsub (coord (atoms self ! k0)) (coord (atoms self ! k1));
             v2 = vsub (coord (atoms self ! k2)) (coord (atoms self ! k1));
             rotation_vector = np_cross v1 v2;
             pivot = AtomArg (atoms self ! k1)
         in case subsets_connected g first_fragment second_fragment of
              Inl e \<Rightarrow> (self, Some e)
            | Inr linked \<Rightarrow>
                if linked then
                  (case rotate_at (delta / 2) rotation_vector pivot (IntIdx k0) (atoms self) of
                     Inl e \<Rightarrow> (self, Some e)
                   | Inr as1 \<Rightarrow>
                       (case rotate_at (-1 * delta / 2) rotation_vector pivot (IntIdx k0) as1 of
                          Inl e \<Rightarrow> (self\<lparr>atoms := as1\<rparr>, Some e)
                        | Inr as2 \<Rightarrow> (self\<lparr>atoms := as2\<rparr>, None)))
                else
                  (case for_each_keep (rotate_at (delta / 2) rotation_vector pivot)
                          (map FloatIdx first_fragment) (atoms self) of
                     (as1, Some e) \<Rightarrow> (self\<lparr>atoms := as1\<rparr>, Some e)
                   | (as1, None) \<Rightarrow>
                       (case for_each_keep (rotate_at (-1 * delta / 2) rotation_vector pivot)
                               (map FloatIdx second_fragment) as1 of
                          (as2, r) \<Rightarrow> (self\<lparr>atoms := as2\<rparr>, r)))))"

definition change_angle_effect ::
  "Molecule \<Rightarrow> nat \<times> nat \<times> nat \<Rightarrow> real \<Rightarrow> (Molecule \<times> error option) option" where
  "change_angle_effect self angle delta =
     (case connectivity_graph self of
        None \<Rightarrow> Some (self, Some AttributeError)
      | Some g \<Rightarrow>
          (case flood_fill_search g (fst angle) (IntArg (fst (snd angle))) of
             None \<Rightarrow> None
           | Some (Inl e) \<Rightarrow> Some (self, Some e)
           | Some (Inr first_fragment) \<Rightarrow>
               (case flood_fill_search g (snd (snd angle)) (IntArg (fst (snd angle))) of
                  None \<Rightarrow> None
                | Some (Inl e) \<Rightarrow> Some (self, Some e)
                | Some (Inr second_fragment) \<Rightarrow>
                    Some (rotate_fragments_effect self g angle delta
                            first_fragment second_fragment))))"

text \<open>
  The exception of a call, or the molecule it returns: what \<open>change_bond\<close> and
  \<open>change_angle\<close> keep of the above.
\<close>

fun outcome :: "Molecule \<times> error option \<Rightarrow> error + Molecule" where
  "outcome (m, None) = Inr m"
| "outcome (m, Some e) = Inl e"

text \<open>
  A graph as \<^verbatim>\<open>ConnectivityGraph.__init__\<close> makes it: \<open>size\<close> rows of \<open>size\<close> entries.
\<close>

definition square :: "ConnectivityGraph \<Rightarrow> bool" where
  "square g = (length (nodes g) = sizeG g \<and> list_all (\<lambda>row. length row = sizeG g) (nodes g))"

section \<open>Molecule addition on a store of list objects\<close>

text \<open>
  \<^verbatim>\<open>Molecule.__add__\<close>, lines 461 to 463, appends to the list object \<^verbatim>\<open>self.atoms\<close>
  while it iterates over the list object \<^verbatim>\<open>other.atoms\<close>. Whether these are one object
  decides what the loop does, so here a molecule holds a reference to its atom list, the
  store maps each list reference to the Atom references the list holds, and Python's list
  iterator is what it is: a position, compared with the current length of the list before
  each step. The method has no \<^verbatim>\<open>return\<close>, so the expression \<^verbatim>\<open>m1 + m2\<close> is \<^verbatim>\<open>None\<close>.
\<close>

type_synonym ref = nat

type_synonym list_store = "ref \<Rightarrow> ref list"

record Molecule_obj =
  atoms_ref :: ref

datatype pyvalue = PyNone

partial_function (option) append_loop :: "list_store \<Rightarrow> ref \<Rightarrow> ref \<Rightarrow> nat \<Rightarrow> list_store option" where
  "append_loop h self_atoms other_atoms k =
     (if k < length (h other_atoms)
      then append_loop (h(self_atoms := h self_atoms @ [h other_atoms ! k]))
             self_atoms other_atoms (Suc k)
      else Some h)"

declare append_loop.simps [code]

definition Molecule_add ::
  "list_store \<Rightarrow> Molecule_obj \<Rightarrow> Molecule_obj \<Rightarrow> (list_store \<times> pyvalue) option" where
  "Molecule_add h self other =
     (case append_loop h (atoms_ref self) (atoms_ref other) 0 of
        None \<Rightarrow> None
      | Some h1 \<Rightarrow> Some (h1, PyNone))"

section \<open>Properties the specification names\<close>

text \<open>
  The rotation-matrix property of the specification: \<open>M\<^sup>T \<cdot> M = I\<close> and determinant \<open>1\<close>.
\<close>

fun transpose3 :: "mat3 \<Rightarrow> mat3" where
  "transpose3 ((a, b, c), (d, e, f), (g, h, i)) = ((a, d, g), (b, e, h), (c, f, i))"

fun matmul3 :: "mat3 \<Rightarrow> mat3 \<Rightarrow> mat3" where
  "matmul3 (r0, r1, r2) m = (matmul_vm r0 m, matmul_vm r1 m, matmul_vm r2 m)"

definition identity3 :: mat3 where
  "identity3 = ((1, 0, 0), (0, 1, 0), (0, 0, 1))"

fun det3 :: "mat3 \<Rightarrow> real" where
  "det3 ((a, b, c), (d, e, f), (g, h, i)) =
     a * (e * i - f * h) - b * (d * i - f * g) + c * (d * h - e * g)"

definition orthonormal :: "mat3 \<Rightarrow> bool" where
  "orthonormal m = (matmul3 (transpose3 m) m = identity3)"

text \<open>
  The specification of \<^verbatim>\<open>subsets_connected\<close>, in its words: some edge joins a vertex in
  \<open>A\<close> to one in \<open>B\<close>. A subset is given the way \<^verbatim>\<open>flood_fill_search\<close> returns one and
  \<^verbatim>\<open>change_bond\<close> passes it on: an array with entry \<open>1\<close> at each member.
\<close>

definition is_member :: "real list \<Rightarrow> nat \<Rightarrow> bool" where
  "is_member A v = (v < length A \<and> A ! v = 1)"

definition spec_subsets_connected :: "ConnectivityGraph \<Rightarrow> real list \<Rightarrow> real list \<Rightarrow> bool" where
  "spec_subsets_connected g A B =
     list_ex (\<lambda>u. list_ex (\<lambda>v. is_member A u \<and> is_member B v \<and>
                (nodes g ! u ! v = 1 \<or> nodes g ! v ! u = 1)) [0..<sizeG g]) [0..<sizeG g]"

section \<open>Example molecules\<close>

definition atom_at :: "string \<Rightarrow> vec3 \<Rightarrow> Atom" where
  "atom_at s p = \<lparr>coord = p, weight = 0, symbol = s\<rparr>"

definition new_molecule :: "Atom list \<Rightarrow> Molecule" where
  "new_molecule as = \<lparr>atoms = as, molecular_formula = None, connectivity_graph = None\<rparr>"

text \<open>
  Three atoms on a line, neighbours 0.02 apart (the default bonding cutoff is 0.025),
  and the graph that \<^verbatim>\<open>get_connectivity_matrix\<close> builds for them. Every atom is within
  the cutoff of itself, so the diagonal is set as well.
\<close>

definition chain_atoms :: "Atom list" where
  "chain_atoms =
     [atom_at ''H'' (0, 0, 0), atom_at ''O'' (0.02, 0, 0), atom_at ''H'' (0.04, 0, 0)]"

definition chain_graph :: ConnectivityGraph where
  "chain_graph = \<lparr>sizeG = 3, nodes = [[1, 1, 0], [1, 1, 1], [0, 1, 1]]\<rparr>"

definition chain_molecule :: Molecule where
  "chain_molecule =
     \<lparr>atoms = chain_atoms, molecular_formula = None, connectivity_graph = Some chain_graph\<rparr>"

text \<open>Three atoms in a triangle, each within the cutoff of the other two: a ring.\<close>

definition ring_atoms :: "Atom list" where
  "ring_atoms =
     [atom_at ''C'' (0, 0, 0), atom_at ''C'' (0.02, 0, 0), atom_at ''C'' (0.01, 0.015, 0)]"

definition ring_graph :: ConnectivityGraph where
  "ring_graph = \<lparr>sizeG = 3, nodes = [[1, 1, 1], [1, 1, 1], [1, 1, 1]]\<rparr>"

definition ring_molecule :: Molecule where
  "ring_molecule =
     \<lparr>atoms = ring_atoms, molecular_formula = None, connectivity_graph = Some ring_graph\<rparr>"

text \<open>Two bonded atoms, and a path of three vertices whose diagonal was left at zero.\<close>

definition pair_graph :: ConnectivityGraph where
  "pair_graph = \<lparr>sizeG = 2, nodes = [[1, 1], [1, 1]]\<rparr>"

definition path_graph :: ConnectivityGraph where
  "path_graph = \<lparr>sizeG = 3, nodes = [[0, 1, 0], [1, 0, 1], [0, 1, 0]]\<rparr>"

text \<open>The atoms of the specification's formula example, two carbons and four hydrogens.\<close>

definition ethylene_atoms :: "Atom list" where
  "ethylene_atoms =
     [atom_at ''C'' (0, 0, 0), atom_at ''C'' (1.33, 0, 0),
      atom_at ''H'' (-0.57, 0.92, 0), atom_at ''H'' (-0.57, -0.92, 0),
      atom_at ''H'' (1.9, 0.92, 0), atom_at ''H'' (1.9, -0.92, 0)]"

text \<open>A store with one list object, at reference 0, holding the Atom references 7 and 8.\<close>

definition two_atom_store :: list_store where
  "two_atom_store = (\<lambda>r. [])(0 := [7, 8])"

text \<open>A store with two list objects: reference 0 holds atoms 7 and 8, reference 1 atom 9.\<close>

definition two_list_store :: list_store where
  "two_list_store = (\<lambda>r. [])(0 := [7, 8], 1 := [9])"

section \<open>Results on the flood fill\<close>

lemmas pass_defs =
  flood_pass_def include_body_def edge_test_def getitem2_def setitem_def count_body_def
  upt_conv_Cons

text \<open>
  A state that a pass of the loop body hands on unchanged is never left: by the
  induction rule of the least fixed point, no run from such a state returns.
\<close>

lemma flood_loop_fixed_state:
  assumes run: "flood_loop g' ex' s' i' c' = Some y"
    and pass: "flood_pass g ex s i c = Inr (Continue s i c)"
  shows "(g', ex', s', i', c') \<noteq> (g, ex, s, i, c)"
  using run
proof (induction rule: flood_loop.raw_induct[rotated 1, consumes 1, case_names step])
  case (step f g' ex' s' i' c' y)
  show ?case
  proof
    assume "(g', ex', s', i', c') = (g, ex, s, i, c)"
    with step(2) pass have "f g ex s i c = Some y" by simp
    from step(1)[OF this] show False by simp
  qed
qed

lemma flood_loop_stuck:
  "flood_pass g ex s i c = Inr (Continue s i c) \<Longrightarrow> flood_loop g ex s i c = None"
  using flood_loop_fixed_state[of g ex s i c _ g ex s i c]
  by (cases "flood_loop g ex s i c") auto

text \<open>What the counting loop computes.\<close>

lemma count_body_step:
  "count_body inside checked i (a, b, s) =
     (if inside ! i = 1 then a + 1 else a,
      if checked ! i = 1 then b + 1 else b,
      if checked ! i \<noteq> 0 \<and> inside ! i = 1 then i else s)"
  by (simp add: count_body_def)

lemma fold_count_body:
  "fold (count_body inside checked) xs (a, b, s) =
     (a + length (filter (\<lambda>i. inside ! i = 1) xs),
      b + length (filter (\<lambda>i. checked ! i = 1) xs),
      last (s # filter (\<lambda>i. checked ! i \<noteq> 0 \<and> inside ! i = 1) xs))"
proof (induction xs arbitrary: a b s)
  case Nil
  then show ?case by simp
next
  case (Cons x xs)
  show ?case
    by (simp add: count_body_step Cons.IH)
qed

subsection \<open>An integer for \<open>excluded\<close>\<close>

text \<open>
  With an integer for \<^verbatim>\<open>excluded\<close> the first loop either raises or marks nothing: the
  membership test is reached exactly when a neighbour is found.
\<close>

lemma for_each_include_IntArg:
  "for_each (include_body g s (IntArg k)) xs inside = Inr r \<Longrightarrow> r = inside"
proof (induction xs arbitrary: inside)
  case Nil
  then show ?case by simp
next
  case (Cons x xs)
  then show ?case
    by (auto simp: include_body_def split: sum.splits if_splits)
qed

lemma flood_pass_IntArg:
  assumes len: "length c = sizeG g"
    and pass: "flood_pass g (IntArg k) s (replicate (sizeG g) 0) c = Inr fl"
  shows "\<exists>s1 c1. fl = Continue s1 (replicate (sizeG g) 0) c1 \<and> length c1 = sizeG g"
proof -
  let ?z = "replicate (sizeG g) (0::real)"
  from pass obtain i1 where i1: "for_each (include_body g s (IntArg k)) [0..<sizeG g] ?z = Inr i1"
    by (auto simp: flood_pass_def split: sum.splits)
  then have i1z: "i1 = ?z" by (rule for_each_include_IntArg)
  from pass i1 obtain c1 where c1: "setitem c s 1 = Inr c1"
    by (auto simp: flood_pass_def split: sum.splits)
  then have s: "s < sizeG g" and c1eq: "c1 = c[s := 1]"
    using len by (auto simp: setitem_def split: if_splits)
  have no_inside: "filter (\<lambda>i. ?z ! i = 1) [0..<sizeG g] = []"
    by (auto simp: filter_empty_conv)
  have "s \<in> set (filter (\<lambda>i. c1 ! i = 1) [0..<sizeG g])"
    using s len c1eq by simp
  then have some_checked: "0 < length (filter (\<lambda>i. c1 ! i = 1) [0..<sizeG g])"
    by (metis length_pos_if_in_set)
  from pass i1 c1 i1z show ?thesis
    using no_inside some_checked c1eq len
    by (auto simp: flood_pass_def fold_count_body split: sum.splits if_splits)
qed

lemma flood_loop_IntArg:
  assumes run: "flood_loop g ex s i c = Some y"
  shows "ex = IntArg k \<Longrightarrow> i = replicate (sizeG g) 0 \<Longrightarrow> length c = sizeG g \<Longrightarrow> isl y"
  using run
proof (induction rule: flood_loop.raw_induct[rotated 1, consumes 1, case_names step])
  case (step f g ex s i c y)
  show ?case
  proof (cases "flood_pass g ex s i c")
    case (Inl e)
    with step(2) show ?thesis by auto
  next
    case (Inr fl)
    with flood_pass_IntArg[of c g k s fl] step(3,4,5)
    obtain s1 c1 where fl: "fl = Continue s1 (replicate (sizeG g) 0) c1"
      and len: "length c1 = sizeG g"
      by auto
    from step(2) Inr fl have "f g ex s1 (replicate (sizeG g) 0) c1 = Some y" by simp
    from step(1)[OF this step(3) _ len] show ?thesis by simp
  qed
qed

lemma flood_fill_search_IntArg: "flood_fill_search g s (IntArg k) \<noteq> Some (Inr r)"
proof
  assume "flood_fill_search g s (IntArg k) = Some (Inr r)"
  then have "flood_loop g (IntArg k) s (replicate (sizeG g) 0) (replicate (sizeG g) 0)
      = Some (Inr r)"
    by (simp add: flood_fill_search_def)
  from flood_loop_IntArg[OF this] show False by simp
qed

subsection \<open>Runs on the example graphs\<close>

lemma chain_search_stuck: "flood_loop chain_graph (TupleArg []) 0 [1, 1, 0] [1, 0, 0] = None"
  by (rule flood_loop_stuck) (simp add: pass_defs chain_graph_def)

lemma chain_search_first_pass:
  "flood_pass chain_graph (TupleArg []) 0 [0, 0, 0] [0, 0, 0]
     = Inr (Continue 0 [1, 1, 0] [1, 0, 0])"
  by (simp add: pass_defs chain_graph_def)

lemma chain_search_diverges: "flood_fill_search chain_graph 0 (TupleArg []) = None"
proof -
  have "flood_loop chain_graph (TupleArg []) 0 [0, 0, 0] [0, 0, 0] = None"
    by (subst flood_loop.simps) (simp add: chain_search_first_pass chain_search_stuck)
  then show ?thesis
    by (simp add: flood_fill_search_def chain_graph_def eval_nat_numeral)
qed

lemma path_search_first_pass:
  "flood_pass path_graph (TupleArg []) 0 [0, 0, 0] [0, 0, 0] = Inr (Return [0, 1, 0])"
  by (simp add: pass_defs path_graph_def)

lemma path_search_returns: "flood_fill_search path_graph 0 (TupleArg []) = Some (Inr [0, 1, 0])"
proof -
  have "flood_loop path_graph (TupleArg []) 0 [0, 0, 0] [0, 0, 0] = Some (Inr [0, 1, 0])"
    by (subst flood_loop.simps) (simp add: path_search_first_pass)
  then show ?thesis
    by (simp add: flood_fill_search_def path_graph_def eval_nat_numeral)
qed

lemma pair_search_stuck: "flood_loop pair_graph (TupleArg []) 0 [1, 1] [1, 0] = None"
  by (rule flood_loop_stuck) (simp add: pass_defs pair_graph_def)

lemma pair_search_first_pass:
  "flood_pass pair_graph (TupleArg []) 0 [0, 0] [0, 0] = Inr (Continue 0 [1, 1] [1, 0])"
  by (simp add: pass_defs pair_graph_def)

text \<open>
  C2. The claim: \<^verbatim>\<open>flood_fill_search(start, excluded)\<close> returns exactly the vertices
  reachable from \<open>start\<close> without entering an excluded vertex, on acyclic and cyclic graphs.
  The code: on the path 0 - 1 - 2 with nothing excluded, the search from vertex 0 marks
  vertex 1 in its first pass, counts one marked and one checked vertex, and returns;
  vertex 2, reachable through vertex 1, is not in the result. On the graph that
  \<^verbatim>\<open>get_connectivity_matrix\<close> builds for the three-atom chain the same search returns
  nothing at all.
\<close>

theorem flood_fill_search_misses_vertex:
  "flood_fill_search path_graph 0 (TupleArg []) = Some (Inr [0, 1, 0]) \<and>
   nodes path_graph ! 0 ! 1 = 1 \<and> nodes path_graph ! 1 ! 2 = 1 \<and>
   flood_fill_search chain_graph 0 (TupleArg []) = None"
proof -
  have "nodes path_graph ! 0 ! 1 = 1" "nodes path_graph ! 1 ! 2 = 1"
    by (simp_all add: path_graph_def)
  then show ?thesis
    by (simp add: path_search_returns chain_search_diverges)
qed

text \<open>
  C6. The claim: \<^verbatim>\<open>flood_fill_search\<close> terminates on every finite graph.
  The code: on two bonded atoms with nothing excluded, the first pass from vertex 0 marks
  both vertices and has checked one; the next start point is chosen among the vertices
  already checked, so it is vertex 0 again, and every later pass repeats this one.
\<close>

theorem flood_fill_search_diverges: "flood_fill_search pair_graph 0 (TupleArg []) = None"
proof -
  have "flood_loop pair_graph (TupleArg []) 0 [0, 0] [0, 0] = None"
    by (subst flood_loop.simps) (simp add: pair_search_first_pass pair_search_stuck)
  then show ?thesis
    by (simp add: flood_fill_search_def pair_graph_def eval_nat_numeral)
qed

section \<open>Results on the adjacency of two subsets\<close>

text \<open>The method reads the lengths of its two arguments and nothing else of them.\<close>

lemma subsets_connected_lengths_only:
  "length A = length A' \<Longrightarrow> length B = length B' \<Longrightarrow>
   subsets_connected g A B = subsets_connected g A' B'"
  by (simp add: subsets_connected_def)

text \<open>
  C5. The claim: \<^verbatim>\<open>subsets_connected(A, B)\<close> is true exactly when some edge joins a member
  of \<open>A\<close> to a member of \<open>B\<close>. The code: on the three-atom chain, with \<open>A\<close> the end atom 0
  and \<open>B\<close> the end atom 2, no edge joins the two, and the method answers True: its loops
  run over the positions \<open>0, 1, 2\<close> of both arrays and the first test,
  \<^verbatim>\<open>nodes[0, 0] == 1\<close>, succeeds. The answer is the same when the two subsets are given
  as the arrays of their members, \<open>[0]\<close> and \<open>[2]\<close>.
\<close>

theorem subsets_connected_ignores_members:
  "subsets_connected chain_graph [1, 0, 0] [0, 0, 1] = Inr True \<and>
   \<not> spec_subsets_connected chain_graph [1, 0, 0] [0, 0, 1] \<and>
   subsets_connected chain_graph [0] [2] = Inr True"
  by (simp add: subsets_connected_def spec_subsets_connected_def is_member_def chain_graph_def
      edge_test_def getitem2_def upt_conv_Cons nth_Cons')

section \<open>Results on Vector\<close>

text \<open>
  C8. The claim: on a three-component coordinate, \<^verbatim>\<open>mirror(normal, point)\<close> replaces the
  coordinate by its reflection across the plane. The code: the plane equation reads
  \<^verbatim>\<open>self.coord[3]\<close>, so on every three-component coordinate, whatever the normal and the
  point, the call raises IndexError and the coordinate is not replaced.
\<close>

theorem mirror_raises_IndexError: "mirror self normal point = Inl IndexError"
  by (cases "coord self") (simp add: mirror_def plane_distance_def Let_def)

lemma rotate_matrix_half_turn:
  "rotate_matrix 180 (1, 0, 0) = ((1, 0, 2), (0, -1, 0), (2, 0, -1))"
  by (simp add: rotate_matrix_def deg2rad_def Let_def)

text \<open>At angle zero the matrix is the identity, for every axis.\<close>

lemma rotate_matrix_zero: "rotate_matrix 0 v = identity3"
  by (cases v) (simp add: rotate_matrix_def deg2rad_def Let_def identity3_def)

text \<open>
  C4. The claim: for every angle and every non-zero axis the matrix built inside
  \<^verbatim>\<open>rotate\<close> is orthonormal with determinant \<open>1\<close>. The code: for a half turn about the
  x axis the matrix is \<open>((1, 0, 2), (0, -1, 0), (2, 0, -1))\<close>, which is not orthonormal, and
  its determinant is \<open>5\<close>. Line 342 multiplies \<^verbatim>\<open>axis_vector[0]\<close> by itself where the
  formula has \<^verbatim>\<open>axis_vector[0] * axis_vector[2]\<close>, lines 346 and 347 copy the entries
  above the diagonal without changing the sign of the sine term, and \<^verbatim>\<open>matrix[2, 1]\<close> is
  never assigned.
\<close>

theorem rotate_matrix_not_orthonormal:
  "\<not> orthonormal (rotate_matrix 180 (1, 0, 0)) \<and> det3 (rotate_matrix 180 (1, 0, 0)) = 5"
  by (simp add: rotate_matrix_half_turn orthonormal_def identity3_def)

section \<open>Results on Atom\<close>

lemma element_weight_keys_distinct: "distinct (map fst element_weight)"
  by (simp add: element_weight_def)

text \<open>
  C9. If the atom's symbol has an entry in the table of atomic weights, \<^verbatim>\<open>assign_weight\<close>
  sets the weight to that entry and reports no error; if it has none, the method calls
  the error reporter and leaves the atom as it was.
\<close>

theorem assign_weight_table:
  "((symbol a, w) \<in> set element_weight \<longrightarrow> assign_weight a = (a\<lparr>weight := w\<rparr>, None)) \<and>
   (symbol a \<notin> fst ` set element_weight \<longrightarrow>
      assign_weight a =
        (a, Some (QuitWithError (''Unrecognized '' @ symbol a @ '' atom encountered!''))))"
proof (intro conjI impI)
  assume "(symbol a, w) \<in> set element_weight"
  then have "map_of element_weight (symbol a) = Some w"
    using element_weight_keys_distinct by simp
  then show "assign_weight a = (a\<lparr>weight := w\<rparr>, None)"
    by (simp add: assign_weight_def)
next
  assume "symbol a \<notin> fst ` set element_weight"
  then have "map_of element_weight (symbol a) = None"
    by (simp add: map_of_eq_None_iff)
  then show "assign_weight a =
      (a, Some (QuitWithError (''Unrecognized '' @ symbol a @ '' atom encountered!'')))"
    by (simp add: assign_weight_def)
qed

theorem assign_weight_table_witness:
  "(''C'', 12.0106) \<in> set element_weight \<and>
   assign_weight (atom_at ''C'' (0, 0, 0)) = (atom_at ''C'' (0, 0, 0)\<lparr>weight := 12.0106\<rparr>, None) \<and>
   ''Xx'' \<notin> fst ` set element_weight \<and>
   assign_weight (atom_at ''Xx'' (0, 0, 0)) =
     (atom_at ''Xx'' (0, 0, 0), Some (QuitWithError ''Unrecognized Xx atom encountered!''))"
proof -
  have c: "(''C'', 12.0106) \<in> set element_weight"
    by (simp add: element_weight_def)
  have x: "''Xx'' \<notin> fst ` set element_weight"
    by (simp add: element_weight_def)
  have sc: "symbol (atom_at ''C'' (0, 0, 0)) = ''C''"
    and sx: "symbol (atom_at ''Xx'' (0, 0, 0)) = ''Xx''"
    by (simp_all add: atom_at_def)
  from assign_weight_table[of "atom_at ''C'' (0, 0, 0)" "12.0106"]
    assign_weight_table[of "atom_at ''Xx'' (0, 0, 0)" 0] c x
  show ?thesis by (simp add: sc sx)
qed

section \<open>Results on Molecule\<close>

subsection \<open>get_molecular_formula\<close>

lemma count_symbol_raises: "as \<noteq> [] \<Longrightarrow> count_symbol as s = Inl AttributeError"
  by (cases as) (simp_all add: count_symbol_def)

lemma collect_symbols_fold:
  "set (fold (\<lambda>atom atom_list.
               if symbol atom \<notin> set atom_list then atom_list @ [symbol atom] else atom_list)
             as acc)
     = set acc \<union> symbol ` set as"
  by (induction as arbitrary: acc) auto

lemma collect_symbols_empty: "collect_symbols as = [] \<longleftrightarrow> as = []"
  using collect_symbols_fold[of as "[]"] by (auto simp: collect_symbols_def)

text \<open>
  Every molecule with an atom: the first comparison of the counting loop is between a
  string and an Atom, and raises.
\<close>

lemma get_molecular_formula_raises:
  assumes "atoms m \<noteq> []"
  shows "fst (get_molecular_formula m) = Inl AttributeError"
proof -
  let ?m1 = "if molecular_formula m = None then m\<lparr>molecular_formula := Some []\<rparr> else m"
  have a: "atoms ?m1 = atoms m" by simp
  have "sort (collect_symbols (atoms m)) \<noteq> []"
    using assms collect_symbols_empty[of "atoms m"] by (metis length_0_conv length_sort)
  then obtain s ss where ss: "sort (collect_symbols (atoms m)) = s # ss"
    by (cases "sort (collect_symbols (atoms m))") auto
  show ?thesis
    unfolding get_molecular_formula_def Let_def a
    by (simp add: ss count_symbol_raises[OF assms])
qed

text \<open>
  C7. The claim: for a molecule with at least one atom, \<^verbatim>\<open>get_molecular_formula()\<close>
  returns the sorted symbols, each followed by its count, \<^verbatim>\<open>"C2H4"\<close> for two carbons and
  four hydrogens. The code: on these six atoms the call raises AttributeError. Line 544
  compares the symbol with the Atom, not with the Atom's symbol; \<^verbatim>\<open>Atom.__eq__\<close> then
  reads \<^verbatim>\<open>.coord\<close> of the string.
\<close>

theorem get_molecular_formula_ethylene_raises:
  "fst (get_molecular_formula (new_molecule ethylene_atoms)) = Inl AttributeError"
  by (rule get_molecular_formula_raises) (simp add: new_molecule_def ethylene_atoms_def)

subsection \<open>The example graphs are the ones the module builds\<close>

lemma sqrt_le_iff_sq: "0 \<le> c \<Longrightarrow> sqrt x \<le> c \<longleftrightarrow> x \<le> c\<^sup>2"
  by (metis real_sqrt_le_iff real_sqrt_abs abs_of_nonneg)

lemma connectedA_iff:
  "0 \<le> c \<Longrightarrow>
   connectedA a b False c \<longleftrightarrow>
     (c0 (vsub (coord a) (coord b)))\<^sup>2 + (c1 (vsub (coord a) (coord b)))\<^sup>2
       + (c2 (vsub (coord a) (coord b)))\<^sup>2 \<le> c\<^sup>2"
  by (cases "vsub (coord a) (coord b)") (simp add: connectedA_def distance_def sqrt_le_iff_sq)

lemma chain_graph_built:
  "get_connectivity_matrix (new_molecule chain_atoms) = Inr (nodes chain_graph, chain_molecule)"
  by (simp add: get_connectivity_matrix_def new_molecule_def chain_atoms_def chain_graph_def
      chain_molecule_def ConnectivityGraph_init_def bond_body_def setitem2_def connectedA_iff
      atom_at_def upt_conv_Cons eval_nat_numeral power2_eq_square)

lemma ring_graph_built:
  "get_connectivity_matrix (new_molecule ring_atoms) = Inr (nodes ring_graph, ring_molecule)"
  by (simp add: get_connectivity_matrix_def new_molecule_def ring_atoms_def ring_graph_def
      ring_molecule_def ConnectivityGraph_init_def bond_body_def setitem2_def connectedA_iff
      atom_at_def upt_conv_Cons eval_nat_numeral power2_eq_square)

subsection \<open>change_bond and change_angle\<close>

text \<open>
  Neither editor ever returns a molecule: the fragment search is called with an integer
  for \<^verbatim>\<open>excluded\<close>, and such a search raises or runs forever.
\<close>

lemma change_bond_never_returns: "change_bond self bond delta \<noteq> Some (Inr m)"
  using flood_fill_search_IntArg[of _ "fst bond" "snd bond"]
  by (auto simp: change_bond_def split: option.splits sum.splits)

lemma change_angle_never_returns: "change_angle self angle delta \<noteq> Some (Inr m)"
  using flood_fill_search_IntArg[of _ "fst angle" "fst (snd angle)"]
  by (auto simp: change_angle_def split: option.splits sum.splits)

text \<open>
  On a graph whose diagonal is set, the first test of the first pass already finds a
  neighbour (the start vertex itself) and the membership test raises.
\<close>

lemma flood_fill_search_int_raises:
  assumes "0 < sizeG g" and "getitem2 (nodes g) s 0 = Inr 1"
  shows "flood_fill_search g s (IntArg k) = Some (Inl TypeError)"
proof -
  from assms(1) have upt: "[0..<sizeG g] = 0 # [Suc 0..<sizeG g]"
    by (simp add: upt_conv_Cons)
  have "flood_pass g (IntArg k) s (replicate (sizeG g) 0) (replicate (sizeG g) 0) = Inl TypeError"
    by (simp add: flood_pass_def upt include_body_def edge_test_def assms(2))
  then show ?thesis
    unfolding flood_fill_search_def by (subst flood_loop.simps) simp
qed

lemma chain_search_raises: "flood_fill_search chain_graph 0 (IntArg k) = Some (Inl TypeError)"
  by (rule flood_fill_search_int_raises) (simp_all add: chain_graph_def getitem2_def)

lemma ring_search_raises: "flood_fill_search ring_graph 0 (IntArg k) = Some (Inl TypeError)"
  by (rule flood_fill_search_int_raises) (simp_all add: ring_graph_def getitem2_def)

text \<open>
  C1. The claim: on a bonded pair whose fragments are not cross-linked,
  \<^verbatim>\<open>change_bond((i, j), delta)\<close> moves each fragment by half of \<open>delta\<close> along the bond, so
  that the bond length changes by \<open>delta\<close>. The code: on the three-atom chain, for the bond
  between atoms 0 and 1, the call raises TypeError inside the first fragment search, at
  \<^verbatim>\<open>i not in excluded\<close> with \<^verbatim>\<open>excluded\<close> the integer 1, and no atom has moved.
\<close>

theorem change_bond_chain_raises: "change_bond chain_molecule (0, 1) delta = Some (Inl TypeError)"
  by (simp add: change_bond_def chain_molecule_def chain_search_raises)

text \<open>On the three-atom ring both editors raise inside the first fragment search.\<close>

lemma ring_calls_raise:
  "change_bond ring_molecule (0, 1) delta = Some (Inl TypeError) \<and>
   change_angle ring_molecule (0, 1, 2) delta = Some (Inl TypeError)"
  by (simp add: change_bond_def change_angle_def ring_molecule_def ring_search_raises)

subsection \<open>The atoms an editor leaves alone\<close>

text \<open>
  The definitions that keep the molecule at a raise agree with the ones that give the
  exception alone.
\<close>

lemma for_each_keep_outcome:
  "for_each body xs s =
     (case for_each_keep body xs s of (s', None) \<Rightarrow> Inr s' | (s', Some e) \<Rightarrow> Inl e)"
  by (induction xs arbitrary: s) (auto split: sum.splits)

lemma translate_fragments_outcome:
  "translate_fragments self g bond delta ff sf =
     outcome (translate_fragments_effect self g bond delta ff sf)"
  by (auto simp: translate_fragments_def translate_fragments_effect_def Let_def
      for_each_keep_outcome split: sum.splits prod.splits option.splits)

lemma rotate_fragments_outcome:
  "rotate_fragments self g angle delta ff sf =
     outcome (rotate_fragments_effect self g angle delta ff sf)"
  by (auto simp: rotate_fragments_def rotate_fragments_effect_def Let_def
      for_each_keep_outcome split: sum.splits prod.splits option.splits)

lemma change_bond_outcome:
  "change_bond self bond delta = map_option outcome (change_bond_effect self bond delta)"
  by (auto simp: change_bond_def change_bond_effect_def translate_fragments_outcome
      split: option.splits sum.splits)

lemma change_angle_outcome:
  "change_angle self angle delta = map_option outcome (change_angle_effect self angle delta)"
  by (auto simp: change_angle_def change_angle_effect_def rotate_fragments_outcome
      split: option.splits sum.splits)

text \<open>
  Whatever the input, a call of either editor that ends has ended by an exception and
  has left the whole molecule as it was.
\<close>

lemma change_bond_effect_unchanged:
  "change_bond_effect self bond delta = Some (m, r) \<Longrightarrow> m = self \<and> r \<noteq> None"
  using flood_fill_search_IntArg[of _ "fst bond" "snd bond"]
  by (auto simp: change_bond_effect_def split: option.splits sum.splits)

lemma change_angle_effect_unchanged:
  "change_angle_effect self angle delta = Some (m, r) \<Longrightarrow> m = self \<and> r \<noteq> None"
  using flood_fill_search_IntArg[of _ "fst angle" "fst (snd angle)"]
  by (auto simp: change_angle_effect_def split: option.splits sum.splits)

text \<open>
  When the start vertex has a neighbour, the search with an integer for \<^verbatim>\<open>excluded\<close>
  ends, at the membership test of the first neighbour.
\<close>

lemma edge_test_square:
  assumes "square g" "a < sizeG g" "b < sizeG g"
  shows "edge_test g a b = Inr (nodes g ! a ! b = 1 \<or> nodes g ! b ! a = 1)"
  using assms by (auto simp: square_def edge_test_def getitem2_def list_all_length)

lemma for_each_include_neighbour:
  assumes sq: "square g" and s: "s < sizeG g"
  shows "\<forall>x \<in> set xs. x < sizeG g \<Longrightarrow> v \<in> set xs \<Longrightarrow>
    nodes g ! s ! v = 1 \<or> nodes g ! v ! s = 1 \<Longrightarrow>
    for_each (include_body g s (IntArg k)) xs inside = Inl TypeError"
proof (induction xs arbitrary: inside)
  case Nil
  then show ?case by simp
next
  case (Cons x xs)
  from Cons.prems(1) have x: "x < sizeG g" by simp
  show ?case
  proof (cases "nodes g ! s ! x = 1 \<or> nodes g ! x ! s = 1")
    case True
    then have "include_body g s (IntArg k) x inside = Inl TypeError"
      by (simp add: include_body_def edge_test_square[OF sq s x])
    then show ?thesis by simp
  next
    case False
    with Cons.prems(2,3) have "v \<in> set xs" by auto
    with Cons.IH Cons.prems(1,3)
    have "for_each (include_body g s (IntArg k)) xs inside = Inl TypeError"
      by simp
    moreover from False have "include_body g s (IntArg k) x inside = Inr inside"
      by (simp add: include_body_def edge_test_square[OF sq s x])
    ultimately show ?thesis by simp
  qed
qed

lemma flood_fill_search_int_neighbour:
  assumes "square g" "s < sizeG g" "v < sizeG g"
    and "nodes g ! s ! v = 1 \<or> nodes g ! v ! s = 1"
  shows "flood_fill_search g s (IntArg k) = Some (Inl TypeError)"
proof -
  have "for_each (include_body g s (IntArg k)) [0..<sizeG g] (replicate (sizeG g) 0)
      = Inl TypeError"
    using assms by (intro for_each_include_neighbour[where v = v]) auto
  then have "flood_pass g (IntArg k) s (replicate (sizeG g) 0) (replicate (sizeG g) 0)
      = Inl TypeError"
    by (simp add: flood_pass_def)
  then show ?thesis
    unfolding flood_fill_search_def by (subst flood_loop.simps) simp
qed

lemma edit_effect_raises:
  assumes "connectivity_graph self = Some g" and "square g"
    and "i < sizeG g" and "v < sizeG g"
    and "nodes g ! i ! v = 1 \<or> nodes g ! v ! i = 1"
  shows "change_bond_effect self (i, j) delta = Some (self, Some TypeError)"
    and "change_angle_effect self (i, p, k) delta = Some (self, Some TypeError)"
proof -
  have "flood_fill_search g i (IntArg n) = Some (Inl TypeError)" for n
    using assms(2-5) by (rule flood_fill_search_int_neighbour)
  then show "change_bond_effect self (i, j) delta = Some (self, Some TypeError)"
    and "change_angle_effect self (i, p, k) delta = Some (self, Some TypeError)"
    using assms(1) by (simp_all add: change_bond_effect_def change_angle_effect_def)
qed

lemma ring_graph_square: "square ring_graph"
  by (simp add: square_def ring_graph_def)

text \<open>
  C3. On a molecule whose connectivity graph is current, so that the first defining atom
  \<open>i\<close> of the edited coordinate has a neighbour \<open>v\<close> in it (in a ring it has two, and
  \<^verbatim>\<open>get_connectivity_matrix\<close> also links every atom to itself), a call of
  \<^verbatim>\<open>change_bond((i, j), delta)\<close> or of \<^verbatim>\<open>change_angle((i, p, k), delta)\<close> ends, and
  every atom other than the defining ones has the coordinates it had before the call.
  The call ends by the TypeError of the fragment search, before its first write, so the
  defining atoms have not moved either; that the edit is not made is what C1 reports.
\<close>

theorem ring_edit_frame:
  assumes "connectivity_graph self = Some g" and "square g"
    and "i < sizeG g" and "v < sizeG g"
    and "nodes g ! i ! v = 1 \<or> nodes g ! v ! i = 1"
  shows "(\<exists>m r. change_bond_effect self (i, j) delta = Some (m, r) \<and>
            length (atoms m) = length (atoms self) \<and>
            (\<forall>n < length (atoms self). n \<noteq> i \<longrightarrow> n \<noteq> j \<longrightarrow>
               coord (atoms m ! n) = coord (atoms self ! n))) \<and>
         (\<exists>m r. change_angle_effect self (i, p, k) delta = Some (m, r) \<and>
            length (atoms m) = length (atoms self) \<and>
            (\<forall>n < length (atoms self). n \<noteq> i \<longrightarrow> n \<noteq> p \<longrightarrow> n \<noteq> k \<longrightarrow>
               coord (atoms m ! n) = coord (atoms self ! n)))"
  using edit_effect_raises[OF assms] by simp

theorem ring_edit_frame_witness:
  "connectivity_graph ring_molecule = Some ring_graph \<and> square ring_graph \<and>
   (0::nat) < sizeG ring_graph \<and> (1::nat) < sizeG ring_graph \<and>
   nodes ring_graph ! 0 ! 1 = 1 \<and>
   (\<exists>m r. change_bond_effect ring_molecule (0, 1) 1 = Some (m, r) \<and>
      length (atoms m) = length (atoms ring_molecule) \<and>
      coord (atoms m ! 2) = coord (atoms ring_molecule ! 2)) \<and>
   (\<exists>m r. change_angle_effect ring_molecule (0, 1, 2) 1 = Some (m, r) \<and>
      length (atoms m) = length (atoms ring_molecule))"
proof -
  have h: "connectivity_graph ring_molecule = Some ring_graph" "square ring_graph"
    "(0::nat) < sizeG ring_graph" "(1::nat) < sizeG ring_graph"
    "nodes ring_graph ! 0 ! 1 = 1 \<or> nodes ring_graph ! 1 ! 0 = 1"
    by (simp_all add: ring_molecule_def ring_graph_square) (simp_all add: ring_graph_def)
  have n: "nodes ring_graph ! 0 ! 1 = 1" by (simp add: ring_graph_def)
  have len: "(2::nat) < length (atoms ring_molecule)"
    by (simp add: ring_molecule_def ring_atoms_def)
  from ring_edit_frame[OF h, where j = 1 and delta = 1 and p = 1 and k = 2] len h n show ?thesis
    by fastforce
qed

section \<open>Results on Molecule addition\<close>

lemma append_loop_distinct:
  assumes "dst \<noteq> src"
  shows "k \<le> length (h src) \<Longrightarrow>
    append_loop h dst src k = Some (h(dst := h dst @ drop k (h src)))"
proof (induction "length (h src) - k" arbitrary: h k)
  case 0
  then show ?case by (subst append_loop.simps) simp
next
  case (Suc n)
  then have k: "k < length (h src)" by simp
  define h1 where "h1 = h(dst := h dst @ [h src ! k])"
  have src: "h1 src = h src" and dst: "h1 dst = h dst @ [h src ! k]"
    using assms by (simp_all add: h1_def)
  have "n = length (h1 src) - Suc k" "Suc k \<le> length (h1 src)"
    using Suc(2) k by (simp_all add: src)
  then have "append_loop h1 dst src (Suc k) = Some (h1(dst := h1 dst @ drop (Suc k) (h1 src)))"
    by (rule Suc(1))
  moreover have "h1(dst := h1 dst @ drop (Suc k) (h1 src)) = h(dst := h dst @ drop k (h src))"
    using k assms by (simp add: src dst Cons_nth_drop_Suc) (simp add: h1_def)
  moreover have "append_loop h dst src k = append_loop h1 dst src (Suc k)"
    using k by (subst append_loop.simps) (simp add: h1_def)
  ultimately show ?case by simp
qed

lemma append_loop_empty: "h src = [] \<Longrightarrow> append_loop h dst src 0 = Some h"
  by (subst append_loop.simps) simp

text \<open>
  One list object on both sides, with an entry left to visit: each step appends one entry
  and moves one position on, so the position never reaches the end.
\<close>

lemma append_loop_shared:
  assumes run: "append_loop h dst src k = Some y"
  shows "dst = src \<Longrightarrow> k < length (h src) \<Longrightarrow> False"
  using run
proof (induction rule: append_loop.raw_induct[rotated 1, consumes 1, case_names step])
  case (step f h dst src k y)
  let ?h = "h(dst := h dst @ [h src ! k])"
  from step(2,3,4) have "f ?h dst src (Suc k) = Some y" by simp
  from step(1)[OF this step(3)] step(3,4) show ?case by simp
qed

lemma append_loop_self: "k < length (h r) \<Longrightarrow> append_loop h r r k = None"
  using append_loop_shared[of h r r k] by (cases "append_loop h r r k") auto

text \<open>
  C10, as the code has it. For two molecules whose atom lists are two list objects, or
  whose one shared list is empty, \<^verbatim>\<open>m1 + m2\<close> appends the atoms of \<open>m2\<close>, the same objects
  in their order, to the list of \<open>m1\<close>, leaves every other list as it was, and evaluates
  to \<^verbatim>\<open>None\<close>.
\<close>

theorem Molecule_add_appends:
  assumes "atoms_ref self \<noteq> atoms_ref other \<or> h (atoms_ref other) = []"
  shows "Molecule_add h self other =
    Some (h(atoms_ref self := h (atoms_ref self) @ h (atoms_ref other)), PyNone)"
proof (cases "atoms_ref self = atoms_ref other")
  case False
  from append_loop_distinct[OF this, of 0 h] show ?thesis
    by (simp add: Molecule_add_def)
next
  case True
  with assms have e: "h (atoms_ref other) = []" by simp
  then have "h(atoms_ref self := h (atoms_ref self) @ h (atoms_ref other)) = h"
    using True by (simp add: fun_upd_idem)
  with append_loop_empty[of h "atoms_ref other" "atoms_ref self"] e show ?thesis
    by (simp add: Molecule_add_def)
qed

theorem Molecule_add_appends_witness:
  "atoms_ref \<lparr>atoms_ref = 0\<rparr> \<noteq> atoms_ref \<lparr>atoms_ref = 1\<rparr> \<and>
   Molecule_add two_list_store \<lparr>atoms_ref = 0\<rparr> \<lparr>atoms_ref = 1\<rparr> =
     Some (two_list_store(0 := [7, 8, 9]), PyNone) \<and>
   (two_list_store(0 := [7, 8, 9])) 1 = [9]"
  using Molecule_add_appends[of "\<lparr>atoms_ref = 0\<rparr>" "\<lparr>atoms_ref = 1\<rparr>" two_list_store]
  by (simp add: two_list_store_def)

text \<open>
  C10, as the claim has it, for every pair of molecules: for \<^verbatim>\<open>m + m\<close> with two atoms in
  the list the loop appends to the list it iterates over, and the expression has no value.
\<close>

theorem Molecule_add_self_counterexample:
  "Molecule_add two_atom_store \<lparr>atoms_ref = 0\<rparr> \<lparr>atoms_ref = 0\<rparr> = None"
  by (simp add: Molecule_add_def append_loop_self two_atom_store_def)

end
